theory Spec2Isabelle
  imports Main "HOL-Library.Word"
begin

unbundle bit_operations_syntax

section \<open>drstrace: argument decoding and trace formatting\<close>

text \<open>
  A shallow embedding of \<^verbatim>\<open>src/drstrace/drstrace.c\<close>: the value decoder
  (\<^verbatim>\<open>print_simple_value\<close>, \<^verbatim>\<open>print_unicode_string\<close>, \<^verbatim>\<open>print_arg\<close>),
  the iteration callback \<^verbatim>\<open>drsys_iter_arg_cb\<close> and the two system-call events.
  The machine word \<^verbatim>\<open>ptr_uint_t\<close> is \<open>'a word\<close> for any width \<open>'a\<close>, so that the
  32-bit and the 64-bit build are both covered. The trace file is a string that grows,
  a failed \<^verbatim>\<open>ASSERT\<close> (which calls \<^verbatim>\<open>dr_abort\<close>) and a fault on an unguarded
  dereference are values of an error type, and every access to the memory of the traced
  process is logged in the state so that theorems can speak about it.
\<close>

subsection \<open>Data model (the parts of drsyscall.h and drmf.h that the file uses)\<close>

text \<open>
  The header \<^verbatim>\<open>drsyscall.h\<close> is not part of the sources at hand. The type tags are the
  thirteen that \<^verbatim>\<open>print_arg\<close> names; every other member of the enumeration is
  \<open>DRSYS_TYPE_OTHER n\<close>.
\<close>

datatype drsys_param_type_t =
    DRSYS_TYPE_VOID
  | DRSYS_TYPE_POINTER
  | DRSYS_TYPE_BOOL
  | DRSYS_TYPE_INT
  | DRSYS_TYPE_SIGNED_INT
  | DRSYS_TYPE_UNSIGNED_INT
  | DRSYS_TYPE_HANDLE
  | DRSYS_TYPE_NTSTATUS
  | DRSYS_TYPE_ATOM
  | DRSYS_TYPE_UNICODE_STRING
  | DRSYS_TYPE_OBJECT_ATTRIBUTES
  | DRSYS_TYPE_IO_STATUS_BLOCK
  | DRSYS_TYPE_LARGE_INTEGER
  | DRSYS_TYPE_OTHER nat

text \<open>
  The mode is a bit mask. The flag values are those of the enumeration
  \<^verbatim>\<open>drsys_param_mode_t\<close> of drsyscall.h (one bit each).
\<close>

type_synonym drsys_param_mode_t = "32 word"

definition DRSYS_PARAM_IN :: drsys_param_mode_t where
  "DRSYS_PARAM_IN = 0x01"

definition DRSYS_PARAM_OUT :: drsys_param_mode_t where
  "DRSYS_PARAM_OUT = 0x02"

definition DRSYS_PARAM_BOUNDS :: drsys_param_mode_t where
  "DRSYS_PARAM_BOUNDS = 0x04"

definition DRSYS_PARAM_RETVAL :: drsys_param_mode_t where
  "DRSYS_PARAM_RETVAL = 0x08"

definition DRSYS_PARAM_INLINED :: drsys_param_mode_t where
  "DRSYS_PARAM_INLINED = 0x10"

text \<open>The macros \<^verbatim>\<open>TEST(mask, var)\<close> and \<^verbatim>\<open>TESTANY(mask, var)\<close> of utils.h:
  \<^verbatim>\<open>(((mask) & (var)) != 0)\<close>.\<close>

definition TEST :: "drsys_param_mode_t \<Rightarrow> drsys_param_mode_t \<Rightarrow> bool" where
  "TEST m var = ((m AND var) \<noteq> 0)"

definition TESTANY :: "drsys_param_mode_t \<Rightarrow> drsys_param_mode_t \<Rightarrow> bool" where
  "TESTANY m var = ((m AND var) \<noteq> 0)"

text \<open>
  \<^verbatim>\<open>drsys_arg_t\<close>, with the fields the file reads. \<open>arg_name\<close> and \<open>type_name\<close> are
  C strings that may be \<^verbatim>\<open>NULL\<close> (\<open>None\<close>). The field \<^verbatim>\<open>size\<close> is \<open>size_arg\<close> here.
\<close>

record (overloaded) ('a::len) drsys_arg_t =
  ordinal :: int
  type :: drsys_param_type_t
  mode :: drsys_param_mode_t
  "value" :: "'a word"
  size_arg :: "'a word"
  pre :: bool
  valid :: bool
  arg_name :: "string option"
  type_name :: "string option"

text \<open>\<^verbatim>\<open>drmf_status_t\<close> of drmf.h: the two values the file tests for, and the others.\<close>

datatype drmf_status_t =
    DRMF_SUCCESS
  | DRMF_ERROR_DETAILS_UNKNOWN
  | DRMF_ERROR_OTHER nat

subsection \<open>Memory of the traced process, the trace, failures\<close>

text \<open>A byte-addressed memory; \<open>None\<close> is an address that cannot be read.\<close>

type_synonym 'a memory = "'a word \<Rightarrow> 8 word option"

datatype 'w mem_access =
    SAFE_READ 'w nat
  | RAW_READ 'w nat

datatype 'w failure =
    ASSERT_FAILURE string string
  | ACCESS_VIOLATION 'w nat

record (overloaded) ('a::len) tracer_state =
  outf :: string
  accesses :: "'a word mem_access list"

definition OUTPUT :: "string \<Rightarrow> 'a::len tracer_state \<Rightarrow> 'a tracer_state" where
  "OUTPUT s st = st\<lparr>outf := outf st @ s\<rparr>"

definition bind_r :: "'e + 's \<Rightarrow> ('s \<Rightarrow> 'e + 't) \<Rightarrow> 'e + 't" where
  "bind_r r f = (case r of Inl e \<Rightarrow> Inl e | Inr s \<Rightarrow> f s)"

definition read_bytes :: "'a::len memory \<Rightarrow> 'a word \<Rightarrow> nat \<Rightarrow> 8 word list option" where
  "read_bytes mem base n =
     (let bs = map (\<lambda>i. mem (base + of_nat i)) [0..<n]
      in if list_all (\<lambda>b. b \<noteq> None) bs then Some (map the bs) else None)"

text \<open>The value of a little-endian byte sequence.\<close>

definition le_word :: "8 word list \<Rightarrow> 'b::len word" where
  "le_word bs = foldr (\<lambda>b w. ucast b OR push_bit 8 w) bs 0"

text \<open>
  Modelled from the spec: the Safe Memory Reader \<^verbatim>\<open>dr_safe_read(base, size, buf, NULL)\<close>
  of DynamoRIO, which is not part of the sources at hand: \<open>read(address, length)\<close> gives
  the bytes or a failure, and never a fault.
\<close>

definition dr_safe_read ::
  "'a::len memory \<Rightarrow> 'a word \<Rightarrow> nat \<Rightarrow> 'a tracer_state \<Rightarrow> 8 word list option \<times> 'a tracer_state" where
  "dr_safe_read mem base n st =
     (read_bytes mem base n, st\<lparr>accesses := accesses st @ [SAFE_READ base n]\<rparr>)"

text \<open>
  A C dereference of \<open>n\<close> bytes at \<open>base\<close>: it faults where the memory cannot be read.
  The failure names the access that faulted, by its base and its length; which of its
  bytes the processor touches first is not fixed by the C source.
\<close>

definition raw_read ::
  "'a::len memory \<Rightarrow> 'a word \<Rightarrow> nat \<Rightarrow> 'a tracer_state \<Rightarrow> 'a word failure + (8 word list \<times> 'a tracer_state)" where
  "raw_read mem base n st =
     (case read_bytes mem base n of
        None \<Rightarrow> Inl (ACCESS_VIOLATION base n)
      | Some bs \<Rightarrow> Inr (bs, st\<lparr>accesses := accesses st @ [RAW_READ base n]\<rparr>))"

subsection \<open>Formats of dr\_fprintf\<close>

text \<open>The digits of a number that is not negative, for \<^verbatim>\<open>%x\<close> and \<^verbatim>\<open>%d\<close>.\<close>

function hexstr :: "int \<Rightarrow> string" where
  "hexstr n =
     (if n < 16 then [''0123456789abcdef'' ! nat n]
      else hexstr (n div 16) @ [''0123456789abcdef'' ! nat (n mod 16)])"
  by pat_completeness auto
termination
  by (relation "measure nat") auto

function decstr :: "int \<Rightarrow> string" where
  "decstr n =
     (if n < 10 then [''0123456789'' ! nat n]
      else decstr (n div 10) @ [''0123456789'' ! nat (n mod 10)])"
  by pat_completeness auto
termination
  by (relation "measure nat") auto

declare hexstr.simps [simp del] decstr.simps [simp del]

text \<open>\<^verbatim>\<open>%d\<close>\<close>

definition fmt_d :: "int \<Rightarrow> string" where
  "fmt_d i = (if i < 0 then ''-'' @ decstr (- i) else decstr i)"

text \<open>
  Modelled from the spec: the macros \<^verbatim>\<open>PFX\<close> and \<^verbatim>\<open>PIFX\<close> of the DynamoRIO headers,
  which are not part of the sources at hand: the raw value in hexadecimal, of the fixed
  width of a machine word and zero-padded for \<^verbatim>\<open>PFX\<close>, unpadded for \<^verbatim>\<open>PIFX\<close>.
\<close>

definition PFX :: "'a::len word \<Rightarrow> string" where
  "PFX v = ''0x'' @ replicate (LENGTH('a) div 4 - length (hexstr (uint v))) (CHR ''0'')
             @ hexstr (uint v)"

definition PIFX :: "'b::len word \<Rightarrow> string" where
  "PIFX v = ''0x'' @ hexstr (uint v)"

text \<open>\<^verbatim>\<open>sizeof\<close> of a machine word, in bytes.\<close>

definition sizeof_word :: "'a::len word \<Rightarrow> nat" where
  "sizeof_word w = LENGTH('a) div 8"

text \<open>
  The wide characters that \<^verbatim>\<open>%.*S\<close> prints from a buffer: at most \<open>n\<close> of them, up to
  a terminating zero, each read from memory without a guard. A wide character is printed
  as the character of its low byte.
\<close>

fun read_wstr ::
  "'a::len memory \<Rightarrow> 'a word \<Rightarrow> nat \<Rightarrow> 'a tracer_state \<Rightarrow> 'a word failure + (string \<times> 'a tracer_state)" where
  "read_wstr mem p 0 st = Inr ([], st)"
| "read_wstr mem p (Suc n) st =
     bind_r (raw_read mem p 2 st) (\<lambda>(bs, st1).
       let wc = (le_word bs :: 16 word)
       in if wc = 0 then Inr ([], st1)
          else bind_r (read_wstr mem (p + 2) n st1) (\<lambda>(cs, st2).
                 Inr (char_of (unat wc) # cs, st2)))"

subsection \<open>The value decoder\<close>

text \<open>
  A field of a C structure read through a pointer: \<open>n\<close> bytes at \<open>base + off\<close>,
  little-endian, without a guard.
\<close>

definition raw_field ::
  "'a::len memory \<Rightarrow> 'a word \<Rightarrow> nat \<Rightarrow> nat \<Rightarrow> 'a tracer_state \<Rightarrow> 'a word failure + ('b::len word \<times> 'a tracer_state)" where
  "raw_field mem base off n st =
     bind_r (raw_read mem (base + of_nat off) n st) (\<lambda>(bs, st1). Inr (le_word bs, st1))"

text \<open>
  \<^verbatim>\<open>print_unicode_string\<close>. The structure \<^verbatim>\<open>UNICODE_STRING\<close> of windefs.h (not part
  of the sources at hand) is \<^verbatim>\<open>USHORT Length; USHORT MaximumLength; PWSTR Buffer\<close>, the
  pointer aligned to a machine word; \<^verbatim>\<open>sizeof(wchar_t)\<close> is 2.
\<close>

definition print_unicode_string ::
  "'a::len memory \<Rightarrow> 'a word \<Rightarrow> 'a tracer_state \<Rightarrow> 'a word failure + 'a tracer_state" where
  "print_unicode_string mem us st =
     (if us = 0 then Inr (OUTPUT ''<null>'' st)
      else
        bind_r (raw_field mem us 0 2 st) (\<lambda>(Length :: 16 word, st1).
        bind_r (raw_field mem us 2 2 st1) (\<lambda>(MaximumLength :: 16 word, st2).
        bind_r (raw_field mem us (sizeof_word us) (sizeof_word us) st2) (\<lambda>(Buffer :: 'a word, st3).
        bind_r (if Buffer = 0 then Inr (take (unat Length div 2) ''<null>'', st3)
                else read_wstr mem Buffer (unat Length div 2) st3) (\<lambda>(chars, st4).
          Inr (OUTPUT (fmt_d (uint Length) @ ''/'' @ fmt_d (uint MaximumLength) @ '' ''
                       @ [CHR 0x22] @ chars @ [CHR 0x22]) st4))))))"

text \<open>\<^verbatim>\<open>print_simple_value\<close>\<close>

definition print_simple_value ::
  "'a::len memory \<Rightarrow> 'a drsys_arg_t \<Rightarrow> bool \<Rightarrow> 'a tracer_state \<Rightarrow> 'a word failure + 'a tracer_state" where
  "print_simple_value mem arg leading_zeroes st =
     (let pointer = \<not> TEST DRSYS_PARAM_INLINED (mode arg);
          st1 = OUTPUT (if pointer then PFX (value arg)
                        else (if leading_zeroes then PFX (value arg) else PIFX (value arg))) st
      in if pointer \<and> ((pre arg \<and> TEST DRSYS_PARAM_IN (mode arg)) \<or>
                        (\<not> pre arg \<and> TEST DRSYS_PARAM_OUT (mode arg)))
         then
           if \<not> unat (size_arg arg) \<le> sizeof_word (value arg)
           then Inl (ASSERT_FAILURE ''arg->size <= sizeof(deref)'' ''too-big simple type'')
           else
             (case dr_safe_read mem (value arg) (unat (size_arg arg)) st1 of
                (Some bs, st2) \<Rightarrow>
                  (let deref = (le_word bs :: 'a word)
                   in Inr (OUTPUT (if leading_zeroes then '' => '' @ PFX deref
                                   else '' => '' @ PIFX deref) st2))
              | (None, st2) \<Rightarrow> Inr st2)
         else Inr st1)"

text \<open>
  The trailing annotation of a trace line: the last \<^verbatim>\<open>OUTPUT\<close> of \<^verbatim>\<open>print_arg\<close>, with
  the format \<^verbatim>\<open>" (%s%s%stype=%s%s, size="PIFX")\n"\<close>. Its arguments are
  \<^verbatim>\<open>arg->arg_name\<close>, \<^verbatim>\<open>arg->type_name\<close>, \<^verbatim>\<open>arg->mode\<close> and \<^verbatim>\<open>arg->size\<close>.
\<close>

definition arg_annotation ::
  "string option \<Rightarrow> string option \<Rightarrow> drsys_param_mode_t \<Rightarrow> 'a::len word \<Rightarrow> string" where
  "arg_annotation aname tname md sz =
     '' ('' @ (case aname of None \<Rightarrow> [] | Some n \<Rightarrow> ''name='')
           @ (case aname of None \<Rightarrow> [] | Some n \<Rightarrow> n)
           @ (case aname of None \<Rightarrow> [] | Some n \<Rightarrow> '', '')
           @ ''type=''
           @ (case tname of None \<Rightarrow> [CHR 0x22, CHR 0x22] | Some t \<Rightarrow> t)
           @ (if tname = None \<or> TESTANY (DRSYS_PARAM_INLINED OR DRSYS_PARAM_RETVAL) md
              then [] else ''*'')
           @ '', size='' @ PIFX sz @ '')\<newline>''"

text \<open>
  \<^verbatim>\<open>print_arg\<close>. The structures of windefs.h (not part of the sources at hand), with
  every pointer-sized field aligned to a machine word of \<open>P\<close> bytes:
  \<^verbatim>\<open>OBJECT_ATTRIBUTES\<close> is \<^verbatim>\<open>ULONG Length\<close> at 0, \<^verbatim>\<open>HANDLE RootDirectory\<close> at \<open>P\<close>,
  \<^verbatim>\<open>PUNICODE_STRING ObjectName\<close> at \<open>2P\<close>, \<^verbatim>\<open>ULONG Attributes\<close> at \<open>3P\<close>,
  \<^verbatim>\<open>PVOID SecurityDescriptor\<close> at \<open>4P\<close>, \<^verbatim>\<open>PVOID SecurityQualityOfService\<close> at \<open>5P\<close>;
  \<^verbatim>\<open>IO_STATUS_BLOCK\<close> is \<^verbatim>\<open>NTSTATUS Status\<close> at 0 and \<^verbatim>\<open>ULONG_PTR Information\<close> at
  \<open>P\<close>; \<^verbatim>\<open>LARGE_INTEGER\<close> is the 64-bit \<^verbatim>\<open>QuadPart\<close>.
\<close>

definition print_arg ::
  "'a::len memory \<Rightarrow> 'a drsys_arg_t \<Rightarrow> 'a tracer_state \<Rightarrow> 'a word failure + 'a tracer_state" where
  "print_arg mem arg st =
     (let P = sizeof_word (value arg);
          st1 = (if ordinal arg = - 1 then OUTPUT (CHR 0x09 # ''retval: '') st
                 else OUTPUT (CHR 0x09 # ''arg '' @ fmt_d (ordinal arg) @ '': '') st)
      in bind_r
        (case type arg of
           DRSYS_TYPE_VOID \<Rightarrow> print_simple_value mem arg True st1
         | DRSYS_TYPE_POINTER \<Rightarrow> print_simple_value mem arg True st1
         | DRSYS_TYPE_BOOL \<Rightarrow> print_simple_value mem arg False st1
         | DRSYS_TYPE_INT \<Rightarrow> print_simple_value mem arg False st1
         | DRSYS_TYPE_SIGNED_INT \<Rightarrow> print_simple_value mem arg False st1
         | DRSYS_TYPE_UNSIGNED_INT \<Rightarrow> print_simple_value mem arg False st1
         | DRSYS_TYPE_HANDLE \<Rightarrow> print_simple_value mem arg False st1
         | DRSYS_TYPE_NTSTATUS \<Rightarrow> print_simple_value mem arg False st1
         | DRSYS_TYPE_ATOM \<Rightarrow> print_simple_value mem arg False st1
         | _ \<Rightarrow>
             (if value arg = 0 then Inr (OUTPUT ''<null>'' st1)
              else if pre arg \<and> \<not> TEST DRSYS_PARAM_IN (mode arg)
              then Inr (OUTPUT (PFX (value arg)) st1)
              else
                (case type arg of
                   DRSYS_TYPE_UNICODE_STRING \<Rightarrow> print_unicode_string mem (value arg) st1
                 | DRSYS_TYPE_OBJECT_ATTRIBUTES \<Rightarrow>
                     bind_r (raw_field mem (value arg) 0 4 st1) (\<lambda>(Length :: 32 word, s1).
                     bind_r (raw_field mem (value arg) P P s1) (\<lambda>(RootDirectory :: 'a word, s2).
                     bind_r (raw_field mem (value arg) (2 * P) P
                               (OUTPUT (''len='' @ PIFX Length @ '', root='' @ PIFX RootDirectory
                                        @ '', name='') s2)) (\<lambda>(ObjectName :: 'a word, s3).
                     bind_r (print_unicode_string mem ObjectName s3) (\<lambda>s4.
                     bind_r (raw_field mem (value arg) (3 * P) 4 s4) (\<lambda>(Attributes :: 32 word, s5).
                     bind_r (raw_field mem (value arg) (4 * P) P s5) (\<lambda>(SecurityDescriptor :: 'a word, s6).
                     bind_r (raw_field mem (value arg) (5 * P) P s6) (\<lambda>(SecurityQualityOfService :: 'a word, s7).
                       Inr (OUTPUT ('', att='' @ PIFX Attributes @ '', sd='' @ PFX SecurityDescriptor
                                    @ '', sqos='' @ PFX SecurityQualityOfService) s7))))))))
                 | DRSYS_TYPE_IO_STATUS_BLOCK \<Rightarrow>
                     bind_r (raw_field mem (value arg) 0 4 st1) (\<lambda>(Status :: 32 word, s1).
                     bind_r (raw_field mem (value arg) P P s1) (\<lambda>(Information :: 'a word, s2).
                       Inr (OUTPUT (''status='' @ PIFX Status @ '', info='' @ PIFX Information) s2)))
                 | DRSYS_TYPE_LARGE_INTEGER \<Rightarrow>
                     bind_r (raw_field mem (value arg) 0 8 st1) (\<lambda>(QuadPart :: 64 word, s1).
                       Inr (OUTPUT (''0x'' @ hexstr (uint QuadPart)) s1))
                 | _ \<Rightarrow> Inr (OUTPUT ''<NYI>'' st1))))
        (\<lambda>st2. Inr (OUTPUT (arg_annotation (arg_name arg) (type_name arg) (mode arg)
                               (size_arg arg)) st2)))"

subsection \<open>The call event sequencer\<close>

text \<open>\<^verbatim>\<open>drsys_iter_arg_cb\<close>; the result \<open>True\<close> is "keep going".\<close>

definition drsys_iter_arg_cb ::
  "'a::len memory \<Rightarrow> 'a drsys_arg_t \<Rightarrow> 'a tracer_state \<Rightarrow> 'a word failure + (bool \<times> 'a tracer_state)" where
  "drsys_iter_arg_cb mem arg st =
     (if \<not> valid arg then Inl (ASSERT_FAILURE ''arg->valid'' ''no args should be invalid'')
      else if (pre arg \<and> \<not> TEST DRSYS_PARAM_RETVAL (mode arg)) \<or>
              (\<not> pre arg \<and> TESTANY (DRSYS_PARAM_OUT OR DRSYS_PARAM_RETVAL) (mode arg))
      then bind_r (print_arg mem arg st) (\<lambda>st1. Inr (True, st1))
      else Inr (True, st))"

text \<open>
  Modelled from the spec: \<^verbatim>\<open>drsys_iterate_args\<close> of the Dr. Syscall library, which is not
  part of the sources at hand: given a visitor, it invokes it once per Argument Record of
  the call in flight, until the visitor says stop, and reports a status. The records it
  has for the call and the status it reports are inputs of the model.
\<close>

fun drsys_iterate_args ::
  "('r \<Rightarrow> 's \<Rightarrow> 'e + (bool \<times> 's)) \<Rightarrow> 'r list \<Rightarrow> drmf_status_t \<Rightarrow> 's \<Rightarrow> 'e + (drmf_status_t \<times> 's)" where
  "drsys_iterate_args cb [] res st = Inr (res, st)"
| "drsys_iterate_args cb (a # as) res st =
     (case cb a st of
        Inl e \<Rightarrow> Inl e
      | Inr (keep_going, st1) \<Rightarrow>
          if keep_going then drsys_iterate_args cb as res st1 else Inr (res, st1))"

text \<open>
  What the instrumentation engine and the Dr. Syscall library answer for the call in
  flight, at one of its two events: the status of \<^verbatim>\<open>drsys_cur_syscall\<close>, of
  \<^verbatim>\<open>drsys_syscall_name\<close> with the name, of \<^verbatim>\<open>drsys_syscall_is_known\<close> with the flag, of
  \<^verbatim>\<open>drsys_syscall_succeeded\<close> with the flag, and the records and status of
  \<^verbatim>\<open>drsys_iterate_args\<close>.
\<close>

record (overloaded) ('a::len) syscall_env =
  cur_syscall_res :: drmf_status_t
  syscall_name_res :: drmf_status_t
  syscall_name :: string
  is_known_res :: drmf_status_t
  known :: bool
  succeeded_res :: drmf_status_t
  success :: bool
  iter_args :: "'a drsys_arg_t list"
  iter_res :: drmf_status_t

text \<open>\<^verbatim>\<open>event_pre_syscall\<close>\<close>

definition event_pre_syscall ::
  "'a::len syscall_env \<Rightarrow> 'a memory \<Rightarrow> 'a tracer_state \<Rightarrow> 'a word failure + (bool \<times> 'a tracer_state)" where
  "event_pre_syscall env mem st =
     (if cur_syscall_res env \<noteq> DRMF_SUCCESS
      then Inl (ASSERT_FAILURE ''false'' ''drsys_cur_syscall failed'')
      else if syscall_name_res env \<noteq> DRMF_SUCCESS
      then Inl (ASSERT_FAILURE ''false'' ''drsys_syscall_name failed'')
      else if is_known_res env \<noteq> DRMF_SUCCESS
      then Inl (ASSERT_FAILURE ''false'' ''failed to find whether known'')
      else
        bind_r (drsys_iterate_args (drsys_iter_arg_cb mem) (iter_args env) (iter_res env)
                  (OUTPUT (syscall_name env
                           @ (if known env then [] else '' (details not all known)'')
                           @ ''\<newline>'') st))
          (\<lambda>(res, st1).
             if res \<noteq> DRMF_SUCCESS \<and> res \<noteq> DRMF_ERROR_DETAILS_UNKNOWN
             then Inl (ASSERT_FAILURE ''false'' ''drsys_iterate_args failed pre-syscall'')
             else Inr (True, st1)))"

text \<open>\<^verbatim>\<open>event_post_syscall\<close>\<close>

definition event_post_syscall ::
  "'a::len syscall_env \<Rightarrow> 'a memory \<Rightarrow> 'a tracer_state \<Rightarrow> 'a word failure + 'a tracer_state" where
  "event_post_syscall env mem st =
     (if cur_syscall_res env \<noteq> DRMF_SUCCESS
      then Inl (ASSERT_FAILURE ''false'' ''drsys_cur_syscall failed'')
      else if succeeded_res env \<noteq> DRMF_SUCCESS
      then Inl (ASSERT_FAILURE ''false'' ''drsys_syscall_succeeded failed'')
      else
        bind_r (drsys_iterate_args (drsys_iter_arg_cb mem) (iter_args env) (iter_res env)
                  (OUTPUT (''    '' @ (if success env then ''succeeded'' else ''failed'')
                           @ '' =>\<newline>'') st))
          (\<lambda>(res, st1).
             if res \<noteq> DRMF_SUCCESS \<and> res \<noteq> DRMF_ERROR_DETAILS_UNKNOWN
             then Inl (ASSERT_FAILURE ''false'' ''drsys_iterate_args failed post-syscall'')
             else Inr st1))"

subsection \<open>Vocabulary of the properties\<close>

text \<open>The simple types: the nine tags that \<^verbatim>\<open>print_arg\<close> hands to \<^verbatim>\<open>print_simple_value\<close>.\<close>

definition is_simple_type :: "drsys_param_type_t \<Rightarrow> bool" where
  "is_simple_type t =
     (t = DRSYS_TYPE_VOID \<or> t = DRSYS_TYPE_POINTER \<or> t = DRSYS_TYPE_BOOL \<or> t = DRSYS_TYPE_INT \<or>
      t = DRSYS_TYPE_SIGNED_INT \<or> t = DRSYS_TYPE_UNSIGNED_INT \<or> t = DRSYS_TYPE_HANDLE \<or>
      t = DRSYS_TYPE_NTSTATUS \<or> t = DRSYS_TYPE_ATOM)"

text \<open>The label that opens a trace line: the first \<^verbatim>\<open>OUTPUT\<close> of \<^verbatim>\<open>print_arg\<close>.\<close>

definition arg_label :: "int \<Rightarrow> string" where
  "arg_label n = (if n = - 1 then CHR 0x09 # ''retval: '' else CHR 0x09 # ''arg '' @ fmt_d n @ '': '')"




subsection \<open>Concrete inputs (a 32-bit build)\<close>

text \<open>
  A memory with the eight bytes at \<open>0x1000\<close> readable (the value 5, little-endian) and
  nothing else, the null address included; an empty trace; some argument records.
\<close>

definition ex_state :: "32 tracer_state" where
  "ex_state = \<lparr>outf = [], accesses = []\<rparr>"

definition ex_mem :: "32 memory" where
  "ex_mem = (\<lambda>a. if a = 0x1000 then Some 5
                  else if 0x1000 < a \<and> a < 0x1008 then Some 0 else None)"

definition ex_in_handle :: "32 drsys_arg_t" where
  "ex_in_handle =
     \<lparr>ordinal = 0, type = DRSYS_TYPE_HANDLE, mode = DRSYS_PARAM_IN, value = 0x1000,
      size_arg = 4, pre = True, valid = True, arg_name = Some ''Handle'',
      type_name = Some ''HANDLE''\<rparr>"


definition ex_large_integer :: "32 drsys_arg_t" where
  "ex_large_integer =
     \<lparr>ordinal = 2, type = DRSYS_TYPE_LARGE_INTEGER, mode = DRSYS_PARAM_OUT, value = 0x1000,
      size_arg = 8, pre = False, valid = True, arg_name = Some ''ByteOffset'',
      type_name = Some ''LARGE_INTEGER''\<rparr>"

definition ex_null_pointer :: "32 drsys_arg_t" where
  "ex_null_pointer =
     \<lparr>ordinal = 3, type = DRSYS_TYPE_POINTER, mode = DRSYS_PARAM_IN, value = 0,
      size_arg = 4, pre = True, valid = True, arg_name = Some ''Base'',
      type_name = Some ''PVOID''\<rparr>"

definition ex_null_string :: "32 drsys_arg_t" where
  "ex_null_string =
     \<lparr>ordinal = 4, type = DRSYS_TYPE_UNICODE_STRING, mode = DRSYS_PARAM_IN, value = 0,
      size_arg = 8, pre = True, valid = True, arg_name = Some ''Name'',
      type_name = Some ''UNICODE_STRING''\<rparr>"

definition ex_bad_pointer :: "32 drsys_arg_t" where
  "ex_bad_pointer =
     \<lparr>ordinal = 0, type = DRSYS_TYPE_UNSIGNED_INT, mode = DRSYS_PARAM_OUT, value = 0x3000,
      size_arg = 4, pre = False, valid = True, arg_name = None,
      type_name = Some ''unsigned int''\<rparr>"

definition ex_nyi :: "32 drsys_arg_t" where
  "ex_nyi =
     \<lparr>ordinal = 5, type = DRSYS_TYPE_OTHER 7, mode = DRSYS_PARAM_IN, value = 0x3000,
      size_arg = 4, pre = False, valid = True, arg_name = Some ''Handle'',
      type_name = Some ''HANDLE''\<rparr>"



definition ex_env :: "32 syscall_env" where
  "ex_env =
     \<lparr>cur_syscall_res = DRMF_SUCCESS, syscall_name_res = DRMF_SUCCESS,
      syscall_name = ''NtClose'', is_known_res = DRMF_SUCCESS, known = False,
      succeeded_res = DRMF_SUCCESS, success = False,
      iter_args = [ex_in_handle], iter_res = DRMF_ERROR_DETAILS_UNKNOWN\<rparr>"

definition ex_env_failed :: "32 syscall_env" where
  "ex_env_failed = ex_env\<lparr>iter_args := [ex_bad_pointer], iter_res := DRMF_ERROR_OTHER 1\<rparr>"

section \<open>Properties\<close>

subsection \<open>Basic facts\<close>

lemmas flag_defs = TEST_def DRSYS_PARAM_IN_def DRSYS_PARAM_OUT_def DRSYS_PARAM_RETVAL_def
  DRSYS_PARAM_INLINED_def

lemma bind_r_Inl [simp]: "bind_r (Inl e) f = Inl e"
  by (simp add: bind_r_def)

lemma bind_r_Inr [simp]: "bind_r (Inr s) f = f s"
  by (simp add: bind_r_def)


lemma outf_OUTPUT [simp]: "outf (OUTPUT s st) = outf st @ s"
  by (simp add: OUTPUT_def)

lemma accesses_OUTPUT [simp]: "accesses (OUTPUT s st) = accesses st"
  by (simp add: OUTPUT_def)

lemma TESTANY_OR: "TESTANY (a OR b) m = (TEST a m \<or> TEST b m)"
  by (auto simp: TESTANY_def TEST_def bit.conj_disj_distrib2 or_eq_0_iff)





lemma print_simple_value_eq:
  "print_simple_value mem arg lz st =
     (if \<not> TEST DRSYS_PARAM_INLINED (mode arg) \<and>
         ((pre arg \<and> TEST DRSYS_PARAM_IN (mode arg)) \<or> (\<not> pre arg \<and> TEST DRSYS_PARAM_OUT (mode arg)))
      then
        if \<not> unat (size_arg arg) \<le> sizeof_word (value arg)
        then Inl (ASSERT_FAILURE ''arg->size <= sizeof(deref)'' ''too-big simple type'')
        else Inr (st\<lparr>outf := outf st @ PFX (value arg) @
                       (case read_bytes mem (value arg) (unat (size_arg arg)) of
                          None \<Rightarrow> []
                        | Some bs \<Rightarrow> '' => '' @ (if lz then PFX (le_word bs :: 'a word)
                                                 else PIFX (le_word bs :: 'a word))),
                     accesses := accesses st @ [SAFE_READ (value arg) (unat (size_arg arg))]\<rparr>)
      else Inr (st\<lparr>outf := outf st @ (if \<not> TEST DRSYS_PARAM_INLINED (mode arg) \<or> lz
                                        then PFX (value arg) else PIFX (value arg))\<rparr>))"
  for arg :: "'a::len drsys_arg_t"
  by (auto simp: print_simple_value_def Let_def OUTPUT_def dr_safe_read_def split: option.splits)

lemma print_arg_simple:
  "is_simple_type (type arg) \<Longrightarrow>
   print_arg mem arg st =
     bind_r (print_simple_value mem arg (type arg = DRSYS_TYPE_VOID \<or> type arg = DRSYS_TYPE_POINTER)
               (OUTPUT (arg_label (ordinal arg)) st))
       (\<lambda>st2. Inr (OUTPUT (arg_annotation (arg_name arg) (type_name arg) (mode arg) (size_arg arg)) st2))"
  by (auto simp: is_simple_type_def print_arg_def Let_def arg_label_def)


lemma fst_dr_safe_read [simp]: "fst (dr_safe_read mem b n st) = read_bytes mem b n"
  by (simp add: dr_safe_read_def)

lemma hexstr_0: "hexstr 0 = ''0''"
  by (simp add: hexstr.simps)

lemma PFX_0: "PFX (0 :: 'a::len word) = ''0x'' @ replicate (LENGTH('a) div 4 - 1) (CHR ''0'') @ ''0''"
  by (simp add: PFX_def hexstr_0)

subsection \<open>Every completed line is label, value, annotation\<close>







lemma print_arg_simple_eq:
  fixes arg :: "'a::len drsys_arg_t"
  assumes "is_simple_type (type arg)"
  shows "print_arg mem arg st =
     (if \<not> TEST DRSYS_PARAM_INLINED (mode arg) \<and>
         ((pre arg \<and> TEST DRSYS_PARAM_IN (mode arg)) \<or> (\<not> pre arg \<and> TEST DRSYS_PARAM_OUT (mode arg)))
      then
        if \<not> unat (size_arg arg) \<le> sizeof_word (value arg)
        then Inl (ASSERT_FAILURE ''arg->size <= sizeof(deref)'' ''too-big simple type'')
        else Inr (st\<lparr>outf := outf st @ arg_label (ordinal arg) @ PFX (value arg) @
                       (case read_bytes mem (value arg) (unat (size_arg arg)) of
                          None \<Rightarrow> []
                        | Some bs \<Rightarrow> '' => '' @
                            (if type arg = DRSYS_TYPE_VOID \<or> type arg = DRSYS_TYPE_POINTER
                             then PFX (le_word bs :: 'a word) else PIFX (le_word bs :: 'a word)))
                       @ arg_annotation (arg_name arg) (type_name arg) (mode arg) (size_arg arg),
                     accesses := accesses st @ [SAFE_READ (value arg) (unat (size_arg arg))]\<rparr>)
      else Inr (st\<lparr>outf := outf st @ arg_label (ordinal arg) @
                     (if \<not> TEST DRSYS_PARAM_INLINED (mode arg) \<or> type arg = DRSYS_TYPE_VOID
                         \<or> type arg = DRSYS_TYPE_POINTER
                      then PFX (value arg) else PIFX (value arg))
                     @ arg_annotation (arg_name arg) (type_name arg) (mode arg) (size_arg arg)\<rparr>))"
  using assms by (auto simp add: print_arg_simple print_simple_value_eq OUTPUT_def)

lemma print_arg_null_complex:
  assumes "\<not> is_simple_type (type arg)" and "value arg = 0"
  shows "print_arg mem arg st =
           Inr (st\<lparr>outf := outf st @ arg_label (ordinal arg) @ ''<null>''
                      @ arg_annotation (arg_name arg) (type_name arg) (mode arg) (size_arg arg)\<rparr>)"
  using assms
  by (cases "type arg") (simp_all add: is_simple_type_def print_arg_def Let_def arg_label_def OUTPUT_def)

lemma drsys_iterate_args_status:
  "drsys_iterate_args cb args res st = Inr (r, st1) \<Longrightarrow> r = res"
  by (induction args arbitrary: st) (auto split: sum.splits if_splits)

lemma drsys_iterate_args_res:
  "drsys_iterate_args cb args res st = Inr (r, st1) \<Longrightarrow>
   drsys_iterate_args cb args res' st = Inr (res', st1)"
  by (induction args arbitrary: st) (auto split: sum.splits if_splits)


subsection \<open>When decoding completes\<close>







section \<open>The claims\<close>

subsection \<open>C1: eligibility at entry\<close>




subsection \<open>C2: eligibility at exit\<close>



subsection \<open>C3: when a simple value is dereferenced\<close>

text \<open>
  C3: for a record of a simple type whose size is at most a machine word (the invariant
  of the data model, which the decoder asserts before it reads), decoding returns, and it
  attempts a memory dereference if and only if the mode is pointer-to-value (not inlined)
  and the pointer is legible in the phase (input during pre-call, output during
  post-call); the attempt is one guarded read at the record's value of the record's size.
  An inlined record triggers no attempt.
\<close>

theorem simple_deref_iff:
  assumes "is_simple_type (type arg)"
    and "unat (size_arg arg) \<le> sizeof_word (value arg)"
  shows "\<exists>st1. print_arg mem arg st = Inr st1 \<and>
           accesses st1 = accesses st @
             (if \<not> TEST DRSYS_PARAM_INLINED (mode arg) \<and>
                 ((pre arg \<and> TEST DRSYS_PARAM_IN (mode arg)) \<or>
                  (\<not> pre arg \<and> TEST DRSYS_PARAM_OUT (mode arg)))
              then [SAFE_READ (value arg) (unat (size_arg arg))] else []) \<and>
           (accesses st1 \<noteq> accesses st) =
             (\<not> TEST DRSYS_PARAM_INLINED (mode arg) \<and>
                 ((pre arg \<and> TEST DRSYS_PARAM_IN (mode arg)) \<or>
                  (\<not> pre arg \<and> TEST DRSYS_PARAM_OUT (mode arg)))) \<and>
           (TEST DRSYS_PARAM_INLINED (mode arg) \<longrightarrow> accesses st1 = accesses st)"
  using assms by (simp add: print_arg_simple_eq)

text \<open>Witness for C3: the input handle of scenario A is read once, through the guard.\<close>

theorem simple_deref_iff_witness:
  "is_simple_type (type ex_in_handle) \<and>
   unat (size_arg ex_in_handle) \<le> sizeof_word (value ex_in_handle) \<and>
   \<not> TEST DRSYS_PARAM_INLINED (mode ex_in_handle) \<and>
   (\<exists>st1. print_arg ex_mem ex_in_handle ex_state = Inr st1 \<and>
          accesses st1 = [SAFE_READ 0x1000 4])"
proof -
  have h: "is_simple_type (type ex_in_handle)"
    "unat (size_arg ex_in_handle) \<le> sizeof_word (value ex_in_handle)"
    by (simp_all add: ex_in_handle_def is_simple_type_def sizeof_word_def)
  have f: "\<not> TEST DRSYS_PARAM_INLINED (mode ex_in_handle)"
    "pre ex_in_handle" "TEST DRSYS_PARAM_IN (mode ex_in_handle)"
    "accesses ex_state = []" "value ex_in_handle = 0x1000" "unat (size_arg ex_in_handle) = 4"
    by (simp_all add: ex_in_handle_def ex_state_def flag_defs)
  from simple_deref_iff [OF h, of ex_mem ex_state] f
  have "\<exists>st1. print_arg ex_mem ex_in_handle ex_state = Inr st1 \<and>
          accesses st1 = [SAFE_READ 0x1000 4]"
    by auto
  with h f show ?thesis by blast
qed

subsection \<open>C4: reads are guarded and bounded\<close>

text \<open>
  C4, as stated, fails: a read of the memory of the traced process that does not go
  through the guarded safe read, and that is longer than a machine word. The record
  \<open>ex_large_integer\<close> is a \<^verbatim>\<open>LARGE_INTEGER\<close> output, visited after the call on a
  build with words of 4 bytes; \<^verbatim>\<open>print_arg\<close> dereferences \<^verbatim>\<open>li->QuadPart\<close> directly,
  and the same record at an address that cannot be read makes that dereference fault.
\<close>

theorem simple_reads_guarded_counterexample:
  "print_arg ex_mem ex_large_integer ex_state =
     Inr \<lparr>outf = CHR 0x09 # ''arg 2: 0x5 (name=ByteOffset, type=LARGE_INTEGER*, size=0x8)\<newline>'',
          accesses = [RAW_READ 0x1000 8]\<rparr> \<and>
   sizeof_word (value ex_large_integer) = 4 \<and>
   print_arg ex_mem (ex_large_integer\<lparr>value := 0x3000\<rparr>) ex_state =
     Inl (ACCESS_VIOLATION 0x3000 8)"
  by code_simp

text \<open>
  C4, amended: while a record of a simple type is decoded, the only read of the memory of
  the traced process is one guarded safe read at the record's value, of exactly the
  record's declared size, and it happens only when that size is at most one machine
  word; the only failure of the decoder is the too-big-simple-type assertion, and it
  fires only when the size exceeds a machine word, hence never under the size invariant.
  (Records of the structured types are dereferenced directly.)
\<close>

theorem simple_reads_guarded:
  assumes "is_simple_type (type arg)"
  shows "case print_arg mem arg st of
           Inr st1 \<Rightarrow>
             accesses st1 = accesses st \<or>
             (accesses st1 = accesses st @ [SAFE_READ (value arg) (unat (size_arg arg))] \<and>
              unat (size_arg arg) \<le> sizeof_word (value arg))
         | Inl e \<Rightarrow>
             e = ASSERT_FAILURE ''arg->size <= sizeof(deref)'' ''too-big simple type'' \<and>
             \<not> unat (size_arg arg) \<le> sizeof_word (value arg)"
  using assms by (simp add: print_arg_simple_eq)

text \<open>
  Witness for C4: the input handle of scenario A; the decoder returns, and what it read
  is at most one guarded read of the four bytes at the handle's address.
\<close>

theorem simple_reads_guarded_witness:
  "is_simple_type (type ex_in_handle) \<and>
   (\<exists>st1. print_arg ex_mem ex_in_handle ex_state = Inr st1 \<and>
          (accesses st1 = [] \<or> accesses st1 = [SAFE_READ 0x1000 4]))"
proof -
  have h: "is_simple_type (type ex_in_handle)"
    by (simp add: ex_in_handle_def is_simple_type_def)
  from simple_reads_guarded [OF h, where mem = ex_mem and st = ex_state]
  have "\<exists>st1. print_arg ex_mem ex_in_handle ex_state = Inr st1 \<and>
          (accesses st1 = [] \<or> accesses st1 = [SAFE_READ 0x1000 4])"
    by (cases "print_arg ex_mem ex_in_handle ex_state")
       (auto simp add: ex_in_handle_def ex_state_def sizeof_word_def)
  with h show ?thesis by blast
qed

subsection \<open>C5: the null placeholder\<close>

text \<open>
  C5, as stated, fails: a pointer-typed record whose value is the null address for which
  the decoder prints no null placeholder and does read. The record \<open>ex_null_pointer\<close> has
  the type tag \<^verbatim>\<open>DRSYS_TYPE_POINTER\<close>, is passed as a pointer to its value, is an input
  visited before the call, and its value is 0: the zero address is printed and a guarded
  read at address 0 is attempted.
\<close>

theorem null_complex_placeholder_counterexample:
  "type ex_null_pointer = DRSYS_TYPE_POINTER \<and> value ex_null_pointer = 0 \<and>
   \<not> TEST DRSYS_PARAM_INLINED (mode ex_null_pointer) \<and>
   print_arg ex_mem ex_null_pointer ex_state =
     Inr \<lparr>outf = CHR 0x09 # ''arg 3: 0x00000000 (name=Base, type=PVOID*, size=0x4)\<newline>'',
          accesses = [SAFE_READ 0 4]\<rparr>"
  by code_simp

text \<open>
  C5, amended: for every record whose type is not one of the simple types and whose value
  is the null address, the decoder emits the null placeholder between the label and the
  annotation and performs no memory read, without classifying or dereferencing the
  pointer.
\<close>

theorem null_complex_placeholder:
  assumes "\<not> is_simple_type (type arg)" and "value arg = 0"
  shows "\<exists>st1. print_arg mem arg st = Inr st1 \<and>
           outf st1 = outf st @ arg_label (ordinal arg) @ ''<null>''
                      @ arg_annotation (arg_name arg) (type_name arg) (mode arg) (size_arg arg) \<and>
           accesses st1 = accesses st"
  using assms by (simp add: print_arg_null_complex)

text \<open>Witness for C5: a null \<^verbatim>\<open>UNICODE_STRING\<close> pointer.\<close>

theorem null_complex_placeholder_witness:
  "\<not> is_simple_type (type ex_null_string) \<and> value ex_null_string = 0 \<and>
   (\<exists>st1. print_arg ex_mem ex_null_string ex_state = Inr st1 \<and>
          outf st1 = CHR 0x09 # ''arg 4: <null> (name=Name, type=UNICODE_STRING*, size=0x8)\<newline>'' \<and>
          accesses st1 = [])"
proof -
  have h: "\<not> is_simple_type (type ex_null_string)" "value ex_null_string = 0"
    by (simp_all add: ex_null_string_def is_simple_type_def)
  have l: "outf ex_state @ arg_label (ordinal ex_null_string) @ ''<null>''
             @ arg_annotation (arg_name ex_null_string) (type_name ex_null_string)
                 (mode ex_null_string) (size_arg ex_null_string) =
           CHR 0x09 # ''arg 4: <null> (name=Name, type=UNICODE_STRING*, size=0x8)\<newline>''"
    by code_simp
  have a: "accesses ex_state = []"
    by (simp add: ex_state_def)
  from null_complex_placeholder [OF h, of ex_mem ex_state] l a
  have "\<exists>st1. print_arg ex_mem ex_null_string ex_state = Inr st1 \<and>
          outf st1 = CHR 0x09 # ''arg 4: <null> (name=Name, type=UNICODE_STRING*, size=0x8)\<newline>'' \<and>
          accesses st1 = []"
    by simp
  with h show ?thesis by blast
qed

subsection \<open>C6: a failed dereference is not an error\<close>

text \<open>
  C6: for a valid record of a simple type, passed as a pointer that is legible in the
  phase and eligible for printing, of a size within a machine word, whose guarded
  dereference fails: the callback returns "keep going" and no error; the line holds the
  label, the pointer address and the annotation, with no dereferenced value; the failed
  read is the only access; and the iteration goes on with the next record.
\<close>

theorem failed_safe_read_continues:
  fixes arg :: "'a::len drsys_arg_t"
  assumes "valid arg"
    and "is_simple_type (type arg)"
    and "\<not> TEST DRSYS_PARAM_INLINED (mode arg)"
    and "(pre arg \<and> TEST DRSYS_PARAM_IN (mode arg) \<and> \<not> TEST DRSYS_PARAM_RETVAL (mode arg)) \<or>
         (\<not> pre arg \<and> TEST DRSYS_PARAM_OUT (mode arg))"
    and "unat (size_arg arg) \<le> sizeof_word (value arg)"
    and "fst (dr_safe_read mem (value arg) (unat (size_arg arg)) s) = None"
  shows "\<exists>st1. drsys_iter_arg_cb mem arg st = Inr (True, st1) \<and>
           outf st1 = outf st @ arg_label (ordinal arg) @ PFX (value arg)
                      @ arg_annotation (arg_name arg) (type_name arg) (mode arg) (size_arg arg) \<and>
           accesses st1 = accesses st @ [SAFE_READ (value arg) (unat (size_arg arg))] \<and>
           drsys_iterate_args (drsys_iter_arg_cb mem) (arg # rest) res st =
             drsys_iterate_args (drsys_iter_arg_cb mem) rest res st1"
  using assms
  by (auto simp add: drsys_iter_arg_cb_def TESTANY_OR print_arg_simple_eq)

text \<open>
  Witness for C6: an output pointer to memory that cannot be read, after the call,
  followed by one more record.
\<close>

theorem failed_safe_read_continues_witness:
  "valid ex_bad_pointer \<and> is_simple_type (type ex_bad_pointer) \<and>
   \<not> TEST DRSYS_PARAM_INLINED (mode ex_bad_pointer) \<and>
   \<not> pre ex_bad_pointer \<and> TEST DRSYS_PARAM_OUT (mode ex_bad_pointer) \<and>
   unat (size_arg ex_bad_pointer) \<le> sizeof_word (value ex_bad_pointer) \<and>
   fst (dr_safe_read ex_mem (value ex_bad_pointer) (unat (size_arg ex_bad_pointer)) ex_state) = None \<and>
   (\<exists>st1. drsys_iter_arg_cb ex_mem ex_bad_pointer ex_state = Inr (True, st1) \<and>
          outf st1 = CHR 0x09 # ''arg 0: 0x00003000 (type=unsigned int*, size=0x4)\<newline>'' \<and>
          accesses st1 = [SAFE_READ 0x3000 4] \<and>
          drsys_iterate_args (drsys_iter_arg_cb ex_mem) [ex_bad_pointer, ex_nyi] DRMF_SUCCESS ex_state =
            drsys_iterate_args (drsys_iter_arg_cb ex_mem) [ex_nyi] DRMF_SUCCESS st1)"
proof -
  have h1: "valid ex_bad_pointer"
    and h2: "is_simple_type (type ex_bad_pointer)"
    and h3: "\<not> TEST DRSYS_PARAM_INLINED (mode ex_bad_pointer)"
    and h4: "\<not> pre ex_bad_pointer" "TEST DRSYS_PARAM_OUT (mode ex_bad_pointer)"
    and h5: "unat (size_arg ex_bad_pointer) \<le> sizeof_word (value ex_bad_pointer)"
    by (simp_all add: ex_bad_pointer_def is_simple_type_def sizeof_word_def flag_defs)
  have h6: "fst (dr_safe_read ex_mem (value ex_bad_pointer) (unat (size_arg ex_bad_pointer)) ex_state) = None"
    by code_simp
  have l: "outf ex_state @ arg_label (ordinal ex_bad_pointer) @ PFX (value ex_bad_pointer)
             @ arg_annotation (arg_name ex_bad_pointer) (type_name ex_bad_pointer)
                 (mode ex_bad_pointer) (size_arg ex_bad_pointer) =
           CHR 0x09 # ''arg 0: 0x00003000 (type=unsigned int*, size=0x4)\<newline>''"
    by code_simp
  have a: "accesses ex_state @ [SAFE_READ (value ex_bad_pointer) (unat (size_arg ex_bad_pointer))] =
           [SAFE_READ 0x3000 4]"
    by (simp add: ex_state_def ex_bad_pointer_def)
  from h4 have h4': "(pre ex_bad_pointer \<and> TEST DRSYS_PARAM_IN (mode ex_bad_pointer) \<and>
                      \<not> TEST DRSYS_PARAM_RETVAL (mode ex_bad_pointer)) \<or>
                     (\<not> pre ex_bad_pointer \<and> TEST DRSYS_PARAM_OUT (mode ex_bad_pointer))"
    by blast
  from failed_safe_read_continues [OF h1 h2 h3 h4' h5 h6, of ex_state "[ex_nyi]" DRMF_SUCCESS] l a
  have "\<exists>st1. drsys_iter_arg_cb ex_mem ex_bad_pointer ex_state = Inr (True, st1) \<and>
          outf st1 = CHR 0x09 # ''arg 0: 0x00003000 (type=unsigned int*, size=0x4)\<newline>'' \<and>
          accesses st1 = [SAFE_READ 0x3000 4] \<and>
          drsys_iterate_args (drsys_iter_arg_cb ex_mem) [ex_bad_pointer, ex_nyi] DRMF_SUCCESS ex_state =
            drsys_iterate_args (drsys_iter_arg_cb ex_mem) [ex_nyi] DRMF_SUCCESS st1"
    by simp
  with h1 h2 h3 h4 h5 h6 show ?thesis by blast
qed

subsection \<open>C7: the annotation\<close>




subsection \<open>C8: types that are not implemented\<close>

text \<open>
  C8: for every record whose type tag is outside the recognised vocabulary (not a simple
  type and none of the four structured types), whose value is not null and which is not
  an output-only pointer before the call, the decoder returns without an error, prints
  the literal placeholder \<^verbatim>\<open><NYI>\<close> between the label and the annotation block, and
  performs no memory read.
\<close>

theorem unrecognized_type_placeholder:
  assumes "\<not> is_simple_type (type arg)"
    and "type arg \<noteq> DRSYS_TYPE_UNICODE_STRING"
    and "type arg \<noteq> DRSYS_TYPE_OBJECT_ATTRIBUTES"
    and "type arg \<noteq> DRSYS_TYPE_IO_STATUS_BLOCK"
    and "type arg \<noteq> DRSYS_TYPE_LARGE_INTEGER"
    and "value arg \<noteq> 0"
    and "\<not> (pre arg \<and> \<not> TEST DRSYS_PARAM_IN (mode arg))"
  shows "\<exists>st1. print_arg mem arg st = Inr st1 \<and>
           outf st1 = outf st @ arg_label (ordinal arg) @ ''<NYI>''
                      @ arg_annotation (arg_name arg) (type_name arg) (mode arg) (size_arg arg) \<and>
           accesses st1 = accesses st"
  using assms
  by (cases "type arg") (auto simp add: is_simple_type_def print_arg_def Let_def arg_label_def)

text \<open>Witness for C8: a record with a tag the decoder does not know, after the call.\<close>

theorem unrecognized_type_placeholder_witness:
  "\<not> is_simple_type (type ex_nyi) \<and>
   type ex_nyi \<noteq> DRSYS_TYPE_UNICODE_STRING \<and> type ex_nyi \<noteq> DRSYS_TYPE_OBJECT_ATTRIBUTES \<and>
   type ex_nyi \<noteq> DRSYS_TYPE_IO_STATUS_BLOCK \<and> type ex_nyi \<noteq> DRSYS_TYPE_LARGE_INTEGER \<and>
   value ex_nyi \<noteq> 0 \<and> \<not> (pre ex_nyi \<and> \<not> TEST DRSYS_PARAM_IN (mode ex_nyi)) \<and>
   outf ex_state @ arg_label (ordinal ex_nyi) @ ''<NYI>''
     @ arg_annotation (arg_name ex_nyi) (type_name ex_nyi) (mode ex_nyi) (size_arg ex_nyi) =
     CHR 0x09 # ''arg 5: <NYI> (name=Handle, type=HANDLE*, size=0x4)\<newline>'' \<and>
   (\<exists>st1. print_arg ex_mem ex_nyi ex_state = Inr st1 \<and>
          outf st1 = outf ex_state @ arg_label (ordinal ex_nyi) @ ''<NYI>''
                     @ arg_annotation (arg_name ex_nyi) (type_name ex_nyi) (mode ex_nyi)
                         (size_arg ex_nyi) \<and>
          accesses st1 = accesses ex_state)"
proof -
  have h: "\<not> is_simple_type (type ex_nyi)"
    "type ex_nyi \<noteq> DRSYS_TYPE_UNICODE_STRING" "type ex_nyi \<noteq> DRSYS_TYPE_OBJECT_ATTRIBUTES"
    "type ex_nyi \<noteq> DRSYS_TYPE_IO_STATUS_BLOCK" "type ex_nyi \<noteq> DRSYS_TYPE_LARGE_INTEGER"
    "value ex_nyi \<noteq> 0" "\<not> (pre ex_nyi \<and> \<not> TEST DRSYS_PARAM_IN (mode ex_nyi))"
    by (simp_all add: ex_nyi_def is_simple_type_def)
  have l: "outf ex_state @ arg_label (ordinal ex_nyi) @ ''<NYI>''
     @ arg_annotation (arg_name ex_nyi) (type_name ex_nyi) (mode ex_nyi) (size_arg ex_nyi) =
     CHR 0x09 # ''arg 5: <NYI> (name=Handle, type=HANDLE*, size=0x4)\<newline>''"
    by code_simp
  from unrecognized_type_placeholder [OF h, of ex_mem ex_state] h l show ?thesis
    by (intro conjI)
qed

subsection \<open>C9: which errors are fatal\<close>

text \<open>
  C9: a record reported invalid makes the callback, and with it the iteration, abort
  with the diagnostic "no args should be invalid". In both events, once the lookups have
  succeeded and the callbacks have run through the records, a status of the iteration
  other than success is fatal (the event aborts with the diagnostic
  "drsys_iterate_args failed ...") unless it is "details unknown": then, as for success,
  the event returns the state the callbacks left, with no abort and no further output.
\<close>

theorem iteration_error_classification:
  fixes env :: "'a::len syscall_env"
  shows "(\<not> valid arg \<longrightarrow>
            drsys_iter_arg_cb mem arg st =
              Inl (ASSERT_FAILURE ''arg->valid'' ''no args should be invalid'') \<and>
            drsys_iterate_args (drsys_iter_arg_cb mem) (arg # rest) res st =
              Inl (ASSERT_FAILURE ''arg->valid'' ''no args should be invalid'')) \<and>
         (cur_syscall_res env = DRMF_SUCCESS \<and> syscall_name_res env = DRMF_SUCCESS \<and>
          is_known_res env = DRMF_SUCCESS \<and>
          drsys_iterate_args (drsys_iter_arg_cb mem) (iter_args env) (iter_res env)
            (OUTPUT (syscall_name env @ (if known env then [] else '' (details not all known)'')
                     @ ''\<newline>'') st) = Inr (ra, sta) \<longrightarrow>
            ra = iter_res env \<and>
            event_pre_syscall env mem st =
              (if iter_res env = DRMF_SUCCESS \<or> iter_res env = DRMF_ERROR_DETAILS_UNKNOWN
               then Inr (True, sta)
               else Inl (ASSERT_FAILURE ''false'' ''drsys_iterate_args failed pre-syscall''))) \<and>
         (cur_syscall_res env = DRMF_SUCCESS \<and> succeeded_res env = DRMF_SUCCESS \<and>
          drsys_iterate_args (drsys_iter_arg_cb mem) (iter_args env) (iter_res env)
            (OUTPUT (''    '' @ (if success env then ''succeeded'' else ''failed'')
                     @ '' =>\<newline>'') st) = Inr (rb, stb) \<longrightarrow>
            rb = iter_res env \<and>
            event_post_syscall env mem st =
              (if iter_res env = DRMF_SUCCESS \<or> iter_res env = DRMF_ERROR_DETAILS_UNKNOWN
               then Inr stb
               else Inl (ASSERT_FAILURE ''false'' ''drsys_iterate_args failed post-syscall'')))"
proof (intro conjI impI)
  assume "\<not> valid arg"
  then show "drsys_iter_arg_cb mem arg st =
      Inl (ASSERT_FAILURE ''arg->valid'' ''no args should be invalid'')"
    by (simp add: drsys_iter_arg_cb_def)
  then show "drsys_iterate_args (drsys_iter_arg_cb mem) (arg # rest) res st =
      Inl (ASSERT_FAILURE ''arg->valid'' ''no args should be invalid'')"
    by simp
next
  assume a: "cur_syscall_res env = DRMF_SUCCESS \<and> syscall_name_res env = DRMF_SUCCESS \<and>
          is_known_res env = DRMF_SUCCESS \<and>
          drsys_iterate_args (drsys_iter_arg_cb mem) (iter_args env) (iter_res env)
            (OUTPUT (syscall_name env @ (if known env then [] else '' (details not all known)'')
                     @ ''\<newline>'') st) = Inr (ra, sta)"
  then show r: "ra = iter_res env"
    by (blast dest: drsys_iterate_args_status)
  with a show "event_pre_syscall env mem st =
              (if iter_res env = DRMF_SUCCESS \<or> iter_res env = DRMF_ERROR_DETAILS_UNKNOWN
               then Inr (True, sta)
               else Inl (ASSERT_FAILURE ''false'' ''drsys_iterate_args failed pre-syscall''))"
    by (simp add: event_pre_syscall_def)
next
  assume a: "cur_syscall_res env = DRMF_SUCCESS \<and> succeeded_res env = DRMF_SUCCESS \<and>
          drsys_iterate_args (drsys_iter_arg_cb mem) (iter_args env) (iter_res env)
            (OUTPUT (''    '' @ (if success env then ''succeeded'' else ''failed'')
                     @ '' =>\<newline>'') st) = Inr (rb, stb)"
  then show r: "rb = iter_res env"
    by (blast dest: drsys_iterate_args_status)
  with a show "event_post_syscall env mem st =
              (if iter_res env = DRMF_SUCCESS \<or> iter_res env = DRMF_ERROR_DETAILS_UNKNOWN
               then Inr stb
               else Inl (ASSERT_FAILURE ''false'' ''drsys_iterate_args failed post-syscall''))"
    by (simp add: event_post_syscall_def)
qed

text \<open>
  Witness for C9: an invalid record; the entry of a call whose details are not all
  known, tolerated; the exit of a call whose iteration fails otherwise, fatal.
\<close>

theorem iteration_error_classification_witness:
  "\<not> valid (ex_in_handle\<lparr>valid := False\<rparr>) \<and>
   drsys_iter_arg_cb ex_mem (ex_in_handle\<lparr>valid := False\<rparr>) ex_state =
     Inl (ASSERT_FAILURE ''arg->valid'' ''no args should be invalid'') \<and>
   cur_syscall_res ex_env = DRMF_SUCCESS \<and> syscall_name_res ex_env = DRMF_SUCCESS \<and>
   is_known_res ex_env = DRMF_SUCCESS \<and> iter_res ex_env = DRMF_ERROR_DETAILS_UNKNOWN \<and>
   event_pre_syscall ex_env ex_mem ex_state =
     Inr (True,
          \<lparr>outf = ''NtClose (details not all known)\<newline>'' @ CHR 0x09 #
                   ''arg 0: 0x00001000 => 0x5 (name=Handle, type=HANDLE*, size=0x4)\<newline>'',
           accesses = [SAFE_READ 0x1000 4]\<rparr>) \<and>
   cur_syscall_res ex_env_failed = DRMF_SUCCESS \<and> succeeded_res ex_env_failed = DRMF_SUCCESS \<and>
   iter_res ex_env_failed = DRMF_ERROR_OTHER 1 \<and>
   event_post_syscall ex_env_failed ex_mem ex_state =
     Inl (ASSERT_FAILURE ''false'' ''drsys_iterate_args failed post-syscall'')"
proof -
  have v: "\<not> valid (ex_in_handle\<lparr>valid := False\<rparr>)"
    by simp
  have e1: "cur_syscall_res ex_env = DRMF_SUCCESS" "syscall_name_res ex_env = DRMF_SUCCESS"
    "is_known_res ex_env = DRMF_SUCCESS" "iter_res ex_env = DRMF_ERROR_DETAILS_UNKNOWN"
    by (simp_all add: ex_env_def)
  have e2: "cur_syscall_res ex_env_failed = DRMF_SUCCESS"
    "succeeded_res ex_env_failed = DRMF_SUCCESS" "iter_res ex_env_failed = DRMF_ERROR_OTHER 1"
    by (simp_all add: ex_env_failed_def ex_env_def)
  have i1: "drsys_iterate_args (drsys_iter_arg_cb ex_mem) (iter_args ex_env) (iter_res ex_env)
              (OUTPUT (syscall_name ex_env
                       @ (if known ex_env then [] else '' (details not all known)'')
                       @ ''\<newline>'') ex_state) =
            Inr (DRMF_ERROR_DETAILS_UNKNOWN,
                 \<lparr>outf = ''NtClose (details not all known)\<newline>'' @ CHR 0x09 #
                   ''arg 0: 0x00001000 => 0x5 (name=Handle, type=HANDLE*, size=0x4)\<newline>'',
                  accesses = [SAFE_READ 0x1000 4]\<rparr>)"
    by code_simp
  have i2: "drsys_iterate_args (drsys_iter_arg_cb ex_mem) (iter_args ex_env_failed)
              (iter_res ex_env_failed)
              (OUTPUT (''    '' @ (if success ex_env_failed then ''succeeded'' else ''failed'')
                       @ '' =>\<newline>'') ex_state) =
            Inr (DRMF_ERROR_OTHER 1,
                 \<lparr>outf = ''    failed =>\<newline>'' @ CHR 0x09 #
                   ''arg 0: 0x00003000 (type=unsigned int*, size=0x4)\<newline>'',
                  accesses = [SAFE_READ 0x3000 4]\<rparr>)"
    by code_simp
  note t1 = iteration_error_classification
    [where env = ex_env and mem = ex_mem and st = ex_state
       and arg = "ex_in_handle\<lparr>valid := False\<rparr>" and rest = "[]" and res = DRMF_SUCCESS
       and ra = DRMF_ERROR_DETAILS_UNKNOWN
       and sta = "\<lparr>outf = ''NtClose (details not all known)\<newline>'' @ CHR 0x09 #
                   ''arg 0: 0x00001000 => 0x5 (name=Handle, type=HANDLE*, size=0x4)\<newline>'',
                  accesses = [SAFE_READ 0x1000 4]\<rparr>"]
  note t2 = iteration_error_classification
    [where env = ex_env_failed and mem = ex_mem and st = ex_state
       and rb = "DRMF_ERROR_OTHER 1"
       and stb = "\<lparr>outf = ''    failed =>\<newline>'' @ CHR 0x09 #
                   ''arg 0: 0x00003000 (type=unsigned int*, size=0x4)\<newline>'',
                  accesses = [SAFE_READ 0x3000 4]\<rparr>"]
  from t1 [THEN conjunct1] v
  have c1: "drsys_iter_arg_cb ex_mem (ex_in_handle\<lparr>valid := False\<rparr>) ex_state =
     Inl (ASSERT_FAILURE ''arg->valid'' ''no args should be invalid'')"
    by (elim impE conjE)
  from t1 [THEN conjunct2, THEN conjunct1] e1 i1
  have c2: "event_pre_syscall ex_env ex_mem ex_state =
     Inr (True,
          \<lparr>outf = ''NtClose (details not all known)\<newline>'' @ CHR 0x09 #
                   ''arg 0: 0x00001000 => 0x5 (name=Handle, type=HANDLE*, size=0x4)\<newline>'',
           accesses = [SAFE_READ 0x1000 4]\<rparr>)"
    by simp
  from t2 [THEN conjunct2, THEN conjunct2] e2 i2
  have c3: "event_post_syscall ex_env_failed ex_mem ex_state =
     Inl (ASSERT_FAILURE ''false'' ''drsys_iterate_args failed post-syscall'')"
    by simp
  from v c1 e1 c2 e2 c3 show ?thesis
    by (intro conjI)
qed

subsection \<open>C10: a null pointer to a simple value\<close>

text \<open>
  C10: for every record of a simple type that is passed as a pointer to its value, whose
  value is the null address and whose size is within a machine word, where a guarded
  read at address zero fails: the decoder prints no null placeholder but the zero
  address (zero-padded to the width of a machine word), then the annotation, with no
  dereferenced value; when the phase and the direction make the pointer legible it does
  attempt one guarded read at address zero, and otherwise none. A record of any other
  type with a null value gets the placeholder \<^verbatim>\<open><null>\<close> and no read.
\<close>

theorem simple_null_pointer_no_placeholder:
  fixes arg :: "'a::len drsys_arg_t"
  assumes "is_simple_type (type arg)"
    and "\<not> TEST DRSYS_PARAM_INLINED (mode arg)"
    and "value arg = 0"
    and "unat (size_arg arg) \<le> sizeof_word (value arg)"
    and "fst (dr_safe_read mem 0 (unat (size_arg arg)) s) = None"
  shows "(\<exists>st1. print_arg mem arg st = Inr st1 \<and>
            outf st1 = outf st @ arg_label (ordinal arg)
                       @ ''0x'' @ replicate (LENGTH('a) div 4 - 1) (CHR ''0'') @ ''0''
                       @ arg_annotation (arg_name arg) (type_name arg) (mode arg) (size_arg arg) \<and>
            accesses st1 = accesses st @
              (if (pre arg \<and> TEST DRSYS_PARAM_IN (mode arg)) \<or>
                  (\<not> pre arg \<and> TEST DRSYS_PARAM_OUT (mode arg))
               then [SAFE_READ 0 (unat (size_arg arg))] else [])) \<and>
         (\<forall>arg' :: 'a drsys_arg_t. \<not> is_simple_type (type arg') \<and> value arg' = 0 \<longrightarrow>
            print_arg mem arg' st =
              Inr (st\<lparr>outf := outf st @ arg_label (ordinal arg') @ ''<null>''
                     @ arg_annotation (arg_name arg') (type_name arg') (mode arg') (size_arg arg')\<rparr>))"
  using assms
  by (auto simp add: print_arg_simple_eq print_arg_null_complex PFX_0)

text \<open>
  Witness for C10: a null input pointer of the type tag \<^verbatim>\<open>DRSYS_TYPE_POINTER\<close> before
  the call, in a memory where the null address cannot be read, beside a null
  \<^verbatim>\<open>UNICODE_STRING\<close> pointer.
\<close>

theorem simple_null_pointer_no_placeholder_witness:
  "is_simple_type (type ex_null_pointer) \<and> \<not> TEST DRSYS_PARAM_INLINED (mode ex_null_pointer) \<and>
   value ex_null_pointer = 0 \<and>
   unat (size_arg ex_null_pointer) \<le> sizeof_word (value ex_null_pointer) \<and>
   fst (dr_safe_read ex_mem 0 (unat (size_arg ex_null_pointer)) ex_state) = None \<and>
   pre ex_null_pointer \<and> TEST DRSYS_PARAM_IN (mode ex_null_pointer) \<and>
   (\<exists>st1. print_arg ex_mem ex_null_pointer ex_state = Inr st1 \<and>
          outf st1 = CHR 0x09 # ''arg 3: 0x00000000 (name=Base, type=PVOID*, size=0x4)\<newline>'' \<and>
          accesses st1 = [SAFE_READ 0 4]) \<and>
   \<not> is_simple_type (type ex_null_string) \<and> value ex_null_string = 0 \<and>
   print_arg ex_mem ex_null_string ex_state =
     Inr \<lparr>outf = CHR 0x09 # ''arg 4: <null> (name=Name, type=UNICODE_STRING*, size=0x8)\<newline>'',
          accesses = []\<rparr>"
proof -
  have h: "is_simple_type (type ex_null_pointer)"
    "\<not> TEST DRSYS_PARAM_INLINED (mode ex_null_pointer)"
    "value ex_null_pointer = 0"
    "unat (size_arg ex_null_pointer) \<le> sizeof_word (value ex_null_pointer)"
    by (simp_all add: ex_null_pointer_def is_simple_type_def sizeof_word_def flag_defs)
  have r: "fst (dr_safe_read ex_mem 0 (unat (size_arg ex_null_pointer)) ex_state) = None"
    by code_simp
  have f: "pre ex_null_pointer" "TEST DRSYS_PARAM_IN (mode ex_null_pointer)"
    by (simp_all add: ex_null_pointer_def flag_defs)
  have g: "\<not> is_simple_type (type ex_null_string)" "value ex_null_string = 0"
    by (simp_all add: ex_null_string_def is_simple_type_def)
  have l: "outf ex_state @ arg_label (ordinal ex_null_pointer)
             @ ''0x'' @ replicate (LENGTH(32) div 4 - 1) (CHR ''0'') @ ''0''
             @ arg_annotation (arg_name ex_null_pointer) (type_name ex_null_pointer)
                 (mode ex_null_pointer) (size_arg ex_null_pointer) =
           CHR 0x09 # ''arg 3: 0x00000000 (name=Base, type=PVOID*, size=0x4)\<newline>''"
    by code_simp
  have a: "accesses ex_state @ [SAFE_READ 0 (unat (size_arg ex_null_pointer))] =
           [SAFE_READ (0 :: 32 word) 4]"
    by (simp add: ex_state_def ex_null_pointer_def)
  have n: "ex_state\<lparr>outf := outf ex_state @ arg_label (ordinal ex_null_string) @ ''<null>''
             @ arg_annotation (arg_name ex_null_string) (type_name ex_null_string)
                 (mode ex_null_string) (size_arg ex_null_string)\<rparr> =
           \<lparr>outf = CHR 0x09 # ''arg 4: <null> (name=Name, type=UNICODE_STRING*, size=0x8)\<newline>'',
            accesses = []\<rparr>"
    by code_simp
  note t = simple_null_pointer_no_placeholder [OF h r, of ex_state]
  from t [THEN conjunct1] f l a
  have c1: "\<exists>st1. print_arg ex_mem ex_null_pointer ex_state = Inr st1 \<and>
          outf st1 = CHR 0x09 # ''arg 3: 0x00000000 (name=Base, type=PVOID*, size=0x4)\<newline>'' \<and>
          accesses st1 = [SAFE_READ 0 4]"
    by simp
  from t [THEN conjunct2, THEN spec, of ex_null_string] g n
  have c2: "print_arg ex_mem ex_null_string ex_state =
     Inr \<lparr>outf = CHR 0x09 # ''arg 4: <null> (name=Name, type=UNICODE_STRING*, size=0x8)\<newline>'',
          accesses = []\<rparr>"
    by simp
  from h r f c1 g c2 show ?thesis
    by (intro conjI)
qed

end
